theory Spec2Isabelle
  imports Main "HOL-Library.Word"
begin

section \<open>JavaScript strings\<close>

text \<open>
  A JavaScript string is a sequence of UTF-16 code units. \<open>split\<close>, \<open>trim\<close>,
  \<open>startsWith\<close>, \<open>replace\<close>, \<open>slice\<close> and the regular expressions of the
  sources (none has the \<open>u\<close> flag) all work on code units.
\<close>

type_synonym jschar = "16 word"
type_synonym jsstring = "jschar list"

definition js :: "string \<Rightarrow> jsstring" where
  "js s = map of_char s"

text \<open>ECMAScript WhiteSpace and LineTerminator: what \<open>trim\<close> strips and \<open>\s\<close> matches.\<close>

definition isLineTerminator :: "jschar \<Rightarrow> bool" where
  "isLineTerminator c \<longleftrightarrow> c = 0x0A \<or> c = 0x0D \<or> c = 0x2028 \<or> c = 0x2029"

definition isWhiteSpace :: "jschar \<Rightarrow> bool" where
  "isWhiteSpace c \<longleftrightarrow>
     c = 0x09 \<or> c = 0x0B \<or> c = 0x0C \<or> c = 0x20 \<or> c = 0xA0 \<or> c = 0x1680 \<or>
     (0x2000 \<le> c \<and> c \<le> 0x200A) \<or> c = 0x202F \<or> c = 0x205F \<or> c = 0x3000 \<or>
     c = 0xFEFF \<or> isLineTerminator c"

text \<open>The class \<open>\d\<close>: the ASCII digits.\<close>

definition isDigit :: "jschar \<Rightarrow> bool" where
  "isDigit c \<longleftrightarrow> 0x30 \<le> c \<and> c \<le> 0x39"

definition trim :: "jsstring \<Rightarrow> jsstring" where
  "trim s = rev (dropWhile isWhiteSpace (rev (dropWhile isWhiteSpace s)))"

definition startsWith :: "jsstring \<Rightarrow> jsstring \<Rightarrow> bool" where
  "startsWith p s \<longleftrightarrow> take (length p) s = p"

definition endsWith :: "jsstring \<Rightarrow> jsstring \<Rightarrow> bool" where
  "endsWith p s \<longleftrightarrow> length p \<le> length s \<and> drop (length s - length p) s = p"

text \<open>\<open>s.split(c)\<close> for a one-character separator: never the empty array.\<close>

fun splitChar :: "jschar \<Rightarrow> jsstring \<Rightarrow> jsstring list" where
  "splitChar sep [] = [[]]"
| "splitChar sep (c # cs) =
     (if c = sep then [] # splitChar sep cs
      else (case splitChar sep cs of
              [] \<Rightarrow> [[c]]
            | l # ls \<Rightarrow> (c # l) # ls))"

text \<open>\<open>s.replace(pat, rep)\<close> for string arguments: the first occurrence only.\<close>

fun replaceFirst :: "jsstring \<Rightarrow> jsstring \<Rightarrow> jsstring \<Rightarrow> jsstring" where
  "replaceFirst pat rep [] = (if pat = [] then rep else [])"
| "replaceFirst pat rep (c # cs) =
     (if startsWith pat (c # cs) then rep @ drop (length pat) (c # cs)
      else c # replaceFirst pat rep cs)"

text \<open>\<open>s.slice(start, end)\<close>: negative positions count from the end, all are clamped.\<close>

definition slice :: "int \<Rightarrow> int \<Rightarrow> jsstring \<Rightarrow> jsstring" where
  "slice start end s =
     (let len = int (length s);
          from = (if start < 0 then max (len + start) 0 else min start len);
          to = (if end < 0 then max (len + end) 0 else min end len)
      in drop (nat from) (take (nat to) s))"

section \<open>ExplanationView: the markdown-subset formatter\<close>

subsection \<open>Display nodes\<close>

text \<open>
  The JSX elements \<open>formatText\<close> builds, with their React keys and their text content;
  class names are styling and left out. \<open>Strong i t\<close> is \<open><strong key={i}>t</strong>\<close>,
  \<open>ListItem i spans\<close> is \<open><li key="li-i">\<close>, \<open>BulletList i items\<close> is
  \<open><ul key="ul-i">\<close>, \<open>Heading 2 i t\<close> is \<open><h2 key={i}>\<close>, \<open>Heading 3 i t\<close> is
  \<open><h3 key={i}>\<close>, \<open>NumberedItem i num spans\<close> is the numbered \<open><div key={i}>\<close>,
  \<open>Spacer i\<close> the empty \<open><div key={i}>\<close> and \<open>Paragraph i spans\<close> is \<open><p key={i}>\<close>.
\<close>

datatype inline = Plain jsstring | Strong nat jsstring

datatype listItem = ListItem nat "inline list"

datatype node =
    BulletList nat "listItem list"
  | Heading nat nat jsstring
  | NumberedItem nat jsstring "inline list"
  | Spacer nat
  | Paragraph nat "inline list"

subsection \<open>parseInlineStyles\<close>

text \<open>
  The regular expression \<open>\*\*.*?\*\*\<close> tried at the start of a string. After the opening
  stars the lazy \<open>.*?\<close> first tries to close, and otherwise takes one more character,
  which must not be a line terminator. The result is the body and the rest of the string.
\<close>

fun lazyBody :: "jsstring \<Rightarrow> (jsstring \<times> jsstring) option" where
  "lazyBody [] = None"
| "lazyBody (c # cs) =
     (if startsWith (js ''**'') (c # cs) then Some ([], drop 2 (c # cs))
      else if isLineTerminator c then None
      else (case lazyBody cs of
              None \<Rightarrow> None
            | Some (b, r) \<Rightarrow> Some (c # b, r)))"

definition boldMatch :: "jsstring \<Rightarrow> (jsstring \<times> jsstring) option" where
  "boldMatch s =
     (if startsWith (js ''**'') s
      then (case lazyBody (drop 2 s) of
              None \<Rightarrow> None
            | Some (b, r) \<Rightarrow> Some (js ''**'' @ b @ js ''**'', r))
      else None)"

text \<open>
  \<open>text.split(/(\*\*.*?\*\*)/g)\<close>: the pieces between the matches, with every match (the
  capture group) put between them. \<open>cur\<close> is the piece read since the last match.
\<close>

function splitBold :: "jsstring \<Rightarrow> jsstring \<Rightarrow> jsstring list" where
  "splitBold cur [] = [cur]"
| "splitBold cur (c # cs) =
     (case boldMatch (c # cs) of
        Some (m, r) \<Rightarrow> cur # m # splitBold [] r
      | None \<Rightarrow> splitBold (cur @ [c]) cs)"
  by pat_completeness auto
termination
proof -
  have body: "lazyBody s = Some (b, r) \<Longrightarrow> length r < length s" for s b r
    by (induction s arbitrary: b) (auto split: if_splits option.splits)
  have shorter: "boldMatch s = Some (m, r) \<Longrightarrow> length r < length s" for s m r
    by (auto simp: boldMatch_def split: if_splits option.splits dest: body)
  show ?thesis
    by (relation "measure (\<lambda>(cur, s). length s)") (auto dest: shorter)
qed

definition styledPart :: "nat \<Rightarrow> jsstring \<Rightarrow> inline" where
  "styledPart i part =
     (if startsWith (js ''**'') part \<and> endsWith (js ''**'') part
      then Strong i (slice 2 (- 2) part)
      else Plain part)"

definition parseInlineStyles :: "jsstring \<Rightarrow> inline list" where
  "parseInlineStyles text =
     (let parts = splitBold [] text
      in map (\<lambda>(i, part). styledPart i part) (enumerate 0 parts))"

subsection \<open>formatText\<close>

definition isBullet :: "jsstring \<Rightarrow> bool" where
  "isBullet line \<longleftrightarrow> startsWith (js ''- '') (trim line)"

text \<open>\<open>/^\d+\.\s/.test(s)\<close>\<close>

definition numberedTest :: "jsstring \<Rightarrow> bool" where
  "numberedTest s =
     (takeWhile isDigit s \<noteq> [] \<and>
      (case dropWhile isDigit s of
         d # w # _ \<Rightarrow> d = 0x2E \<and> isWhiteSpace w
       | _ \<Rightarrow> False))"

text \<open>
  \<open>s.match(/^(\d+)\.\s(.*)/)\<close>: the two groups, or \<open>None\<close> for \<open>null\<close>. The greedy
  \<open>(.*)\<close> stops at the first line terminator.
\<close>

definition numberedMatch :: "jsstring \<Rightarrow> (jsstring \<times> jsstring) option" where
  "numberedMatch s =
     (if numberedTest s
      then Some (takeWhile isDigit s,
                 takeWhile (\<lambda>c. \<not> isLineTerminator c) (drop 2 (dropWhile isDigit s)))
      else None)"

text \<open>The \<open>li\<close> element pushed for a bullet line.\<close>

definition bulletItem :: "nat \<Rightarrow> jsstring \<Rightarrow> listItem" where
  "bulletItem i line = ListItem i (parseInlineStyles (replaceFirst (js ''- '') [] line))"

text \<open>What the branches after the bullet branch push for line \<open>i\<close>.\<close>

definition blockNodes :: "nat \<Rightarrow> jsstring \<Rightarrow> node list" where
  "blockNodes i line =
     (if startsWith (js ''## '') line then [Heading 2 i (replaceFirst (js ''## '') [] line)]
      else if startsWith (js ''### '') line then [Heading 3 i (replaceFirst (js ''### '') [] line)]
      else if numberedTest (trim line) then
        (case numberedMatch line of
           Some (num, rest) \<Rightarrow> [NumberedItem i num (parseInlineStyles rest)]
         | None \<Rightarrow> [])
      else if trim line = [] then [Spacer i]
      else [Paragraph i (parseInlineStyles line)])"

text \<open>
  The \<open>for\<close> loop, from index \<open>i\<close> over the lines still to read. The state is the pair
  of \<open>elements\<close> and \<open>currentListItems\<close>. \<open>nextLine\<close> is the head of the remaining
  lines, \<open>undefined\<close> when there is none; \<open>!nextLine\<close> holds for \<open>undefined\<close> and for
  the empty string.
\<close>

fun formatLoop :: "nat \<Rightarrow> jsstring list \<Rightarrow> node list \<times> listItem list \<Rightarrow> node list \<times> listItem list" where
  "formatLoop i [] st = st"
| "formatLoop i (line # rest) (elements, currentListItems) =
     (if isBullet line then
        (let items = currentListItems @ [bulletItem i line]
         in if (case rest of [] \<Rightarrow> True | nextLine # _ \<Rightarrow> nextLine = [] \<or> \<not> isBullet nextLine)
            then formatLoop (Suc i) rest (elements @ [BulletList i items], [])
            else formatLoop (Suc i) rest (elements, items))
      else formatLoop (Suc i) rest (elements @ blockNodes i line, currentListItems))"

definition formatText :: "jsstring \<Rightarrow> node list" where
  "formatText text = fst (formatLoop 0 (splitChar 0x0A text) ([], []))"


text \<open>
  The loop read as two functions of the remaining lines and the pending items: the nodes
  it appends to \<open>elements\<close>, and the items it leaves in \<open>currentListItems\<close>.
\<close>

fun emitted :: "nat \<Rightarrow> jsstring list \<Rightarrow> listItem list \<Rightarrow> node list" where
  "emitted i [] cur = []"
| "emitted i (line # rest) cur =
     (if isBullet line then
        (if rest = [] \<or> \<not> isBullet (hd rest)
         then BulletList i (cur @ [bulletItem i line]) # emitted (Suc i) rest []
         else emitted (Suc i) rest (cur @ [bulletItem i line]))
      else blockNodes i line @ emitted (Suc i) rest cur)"

fun carried :: "nat \<Rightarrow> jsstring list \<Rightarrow> listItem list \<Rightarrow> listItem list" where
  "carried i [] cur = cur"
| "carried i (line # rest) cur =
     (if isBullet line then
        (if rest = [] \<or> \<not> isBullet (hd rest)
         then carried (Suc i) rest []
         else carried (Suc i) rest (cur @ [bulletItem i line]))
      else carried (Suc i) rest cur)"

text \<open>The number of input lines a node stands for.\<close>

fun nodeLines :: "node \<Rightarrow> nat" where
  "nodeLines (BulletList k items) = length items"
| "nodeLines (Heading lvl k t) = 1"
| "nodeLines (NumberedItem k num spans) = 1"
| "nodeLines (Spacer k) = 1"
| "nodeLines (Paragraph k spans) = 1"

section \<open>The model API (services/geminiService.ts)\<close>

text \<open>
  A thrown value with its \<open>message\<close> property, \<open>None\<close> when it has none (the
  \<open>ProgressEvent\<close> a \<open>FileReader\<close> rejects with).
\<close>

datatype jsThrown = Thrown (message: "jsstring option")

abbreviation newError :: "string \<Rightarrow> jsThrown" where
  "newError m \<equiv> Thrown (Some (js m))"

record QuizQuestion =
  question :: jsstring
  options :: "jsstring list"
  correctAnswerIndex :: int
  explanation :: jsstring

record AnalysisResult =
  title :: jsstring
  explanation :: jsstring
  relationshipDescription :: jsstring
  quiz :: "QuizQuestion list"

text \<open>
  A \<open>generateContent\<close> request: which of the three prompts it carries (the question for
  the tutor), the MIME type and the base64 data, \<open>None\<close> where the caller passes
  \<open>undefined\<close>.
\<close>

datatype prompt = AnalyzePrompt | MoreQuestionsPrompt | TutorPrompt jsstring

record request =
  mimeType :: jsstring
  data :: "jsstring option"
  prompt :: prompt

text \<open>
  The world outside the application: whether \<open>process.env.API_KEY\<close> is set, what the
  remote model answers to a request after the requests made so far (it throws, or it
  returns \<open>response.text\<close>, maybe \<open>undefined\<close>), what \<open>JSON.parse\<close> makes of a text
  (\<open>None\<close> when it throws), and the requests made.
\<close>

record World =
  apiKey :: bool
  respond :: "request list \<Rightarrow> request \<Rightarrow> jsThrown + jsstring option"
  parseAnalysis :: "jsstring \<Rightarrow> AnalysisResult option"
  parseQuiz :: "jsstring \<Rightarrow> QuizQuestion list option"
  calls :: "request list"

definition generateContent :: "World \<Rightarrow> request \<Rightarrow> (jsThrown + jsstring option) \<times> World" where
  "generateContent w req = (respond w (calls w) req, w\<lparr>calls := calls w @ [req]\<rparr>)"

text \<open>A string or \<open>undefined\<close> is falsy when it is \<open>undefined\<close> or empty.\<close>

definition falsy :: "jsstring option \<Rightarrow> bool" where
  "falsy v \<longleftrightarrow> v = None \<or> v = Some []"

definition analyzeImage :: "World \<Rightarrow> jsstring option \<Rightarrow> jsstring \<Rightarrow> (jsThrown + AnalysisResult) \<times> World" where
  "analyzeImage w base64Data mime =
     (if \<not> apiKey w
      then (Inl (newError ''API Key is missing. Please check your environment configuration.''), w)
      else
        (let (response, w') = generateContent w \<lparr>mimeType = mime, data = base64Data, prompt = AnalyzePrompt\<rparr>;
             failed = Inl (newError ''Failed to analyze the diagram. Please try again.'')
         in (case response of
               Inl e \<Rightarrow> failed
             | Inr txt \<Rightarrow>
                 if falsy txt then failed
                 else (case parseAnalysis w (the txt) of
                         None \<Rightarrow> failed
                       | Some r \<Rightarrow> Inr r),
             w')))"

definition generateMoreQuestions :: "World \<Rightarrow> jsstring option \<Rightarrow> jsstring \<Rightarrow> (jsThrown + QuizQuestion list) \<times> World" where
  "generateMoreQuestions w base64Data mime =
     (if \<not> apiKey w
      then (Inl (newError ''API Key is missing.''), w)
      else
        (let (response, w') = generateContent w \<lparr>mimeType = mime, data = base64Data, prompt = MoreQuestionsPrompt\<rparr>;
             failed = Inl (newError ''Failed to generate new questions.'')
         in (case response of
               Inl e \<Rightarrow> failed
             | Inr txt \<Rightarrow>
                 if falsy txt then failed
                 else (case parseQuiz w (the txt) of
                         None \<Rightarrow> failed
                       | Some qs \<Rightarrow> Inr qs),
             w')))"

definition askAiTutor :: "World \<Rightarrow> jsstring option \<Rightarrow> jsstring \<Rightarrow> jsstring \<Rightarrow> (jsThrown + jsstring) \<times> World" where
  "askAiTutor w base64Data mime q =
     (if \<not> apiKey w
      then (Inl (newError ''API Key is missing.''), w)
      else
        (let (response, w') = generateContent w \<lparr>mimeType = mime, data = base64Data, prompt = TutorPrompt q\<rparr>
         in (case response of
               Inl e \<Rightarrow> Inl (newError ''Failed to get an answer.'')
             | Inr txt \<Rightarrow>
                 Inr (if falsy txt then js ''I couldn't generate a response. Please try again.''
                      else the txt),
             w')))"

text \<open>
  \<open>src.split(',')[1]\<close>, \<open>undefined\<close> without a comma, and
  \<open>src.match(/data:([^;]+);/)?.[1] || 'image/png'\<close>: the leftmost \<open>data:\<close> followed by a
  non-empty run without a semicolon and then a semicolon.
\<close>

definition rawBase64 :: "jsstring \<Rightarrow> jsstring option" where
  "rawBase64 src = (case splitChar 0x2C src of _ # b # _ \<Rightarrow> Some b | _ \<Rightarrow> None)"

fun mimeMatch :: "jsstring \<Rightarrow> jsstring option" where
  "mimeMatch [] = None"
| "mimeMatch (c # cs) =
     (let body = drop 5 (c # cs)
      in if startsWith (js ''data:'') (c # cs)
            \<and> takeWhile (\<lambda>x. x \<noteq> 0x3B) body \<noteq> []
            \<and> dropWhile (\<lambda>x. x \<noteq> 0x3B) body \<noteq> []
         then Some (takeWhile (\<lambda>x. x \<noteq> 0x3B) body)
         else mimeMatch cs)"

definition mimeOf :: "jsstring \<Rightarrow> jsstring" where
  "mimeOf src = (case mimeMatch src of Some m \<Rightarrow> m | None \<Rightarrow> js ''image/png'')"

section \<open>App.tsx\<close>

text \<open>
  A source name that is an Isabelle keyword or a constant of the library carries a prime:
  \<open>type'\<close>, \<open>image'\<close>, \<open>id'\<close>, \<open>text'\<close>. The status \<open>'error'\<close> is the constructor
  \<open>Error\<close>.
\<close>

datatype status = Idle | Analyzing | Complete | Error

record ProcessingState =
  status :: status
  error :: "jsstring option"

text \<open>An uploaded file: its MIME type and what \<open>readFileAsBase64\<close> yields for it.\<close>

record File =
  type' :: jsstring
  readFileAsBase64 :: "jsThrown + jsstring"

text \<open>
  The state of the component. \<open>fileInput\<close> is the value of the file input the ref points
  to, \<open>None\<close> while the ref is \<open>null\<close>.
\<close>

record App =
  image' :: "jsstring option"
  result :: "AnalysisResult option"
  processingState :: ProcessingState
  isDragging :: bool
  isGeneratingMore :: bool
  fileInput :: "jsstring option"

text \<open>The state set in the \<open>catch\<close> block: \<open>err.message || '...'\<close>.\<close>

definition caught :: "jsThrown \<Rightarrow> ProcessingState" where
  "caught err =
     \<lparr>status = Error,
      error = Some (if falsy (message err)
                    then js ''An unexpected error occurred while processing the image.''
                    else the (message err))\<rparr>"

definition processFile :: "World \<Rightarrow> File \<Rightarrow> App \<Rightarrow> App \<times> World" where
  "processFile w file s =
     (let s0 = s\<lparr>image' := None, result := None,
                 processingState := \<lparr>status = Analyzing, error = None\<rparr>\<rparr>
      in if \<not> startsWith (js ''image/'') (type' file)
         then (s0\<lparr>processingState :=
                    \<lparr>status = Error, error = Some (js ''Please upload a valid image file.'')\<rparr>\<rparr>, w)
         else (case readFileAsBase64 file of
                 Inl err \<Rightarrow> (s0\<lparr>processingState := caught err\<rparr>, w)
               | Inr base64Data \<Rightarrow>
                   (let s1 = s0\<lparr>image' := Some base64Data\<rparr>;
                        (analysis, w') = analyzeImage w (rawBase64 base64Data) (type' file)
                    in (case analysis of
                          Inl err \<Rightarrow> (s1\<lparr>processingState := caught err\<rparr>, w')
                        | Inr analysisData \<Rightarrow>
                            (s1\<lparr>result := Some analysisData,
                                processingState := \<lparr>status = Complete, error = None\<rparr>\<rparr>, w')))))"

text \<open>
  \<open>handleGenerateMoreQuestions\<close> is asynchronous: other handlers can run while it waits
  for the model. Its first part runs up to the \<open>await\<close>: the guard,
  \<open>setIsGeneratingMore(true)\<close> and the request. What then waits holds the \<open>result\<close> of
  the render whose handler was called, and the outcome of the request.
\<close>

record GenerateMore =
  capturedResult :: AnalysisResult
  generated :: "jsThrown + QuizQuestion list"

definition handleGenerateMoreQuestions :: "World \<Rightarrow> App \<Rightarrow> (App \<times> GenerateMore option) \<times> World" where
  "handleGenerateMoreQuestions w s =
     (if falsy (image' s) \<or> result s = None then ((s, None), w)
      else
        (let src = the (image' s);
             (outcome, w') = generateMoreQuestions w (rawBase64 src) (mimeOf src)
         in ((s\<lparr>isGeneratingMore := True\<rparr>,
              Some \<lparr>capturedResult = the (result s), generated = outcome\<rparr>), w')))"

text \<open>
  The rest of the handler, run on the state the application has when the request has
  settled: \<open>setResult({...result, quiz: newQuestions})\<close> with the captured \<open>result\<close>,
  nothing but a log entry in the \<open>catch\<close> block, and \<open>setIsGeneratingMore(false)\<close>.
\<close>

definition generateMoreSettled :: "GenerateMore \<Rightarrow> App \<Rightarrow> App" where
  "generateMoreSettled pending s =
     (case generated pending of
        Inr newQuestions \<Rightarrow>
          s\<lparr>result := Some ((capturedResult pending)\<lparr>quiz := newQuestions\<rparr>),
            isGeneratingMore := False\<rparr>
      | Inl err \<Rightarrow> s\<lparr>isGeneratingMore := False\<rparr>)"

definition handleReset :: "App \<Rightarrow> App" where
  "handleReset s =
     s\<lparr>image' := None, result := None,
       processingState := \<lparr>status = Idle, error = None\<rparr>,
       fileInput := map_option (\<lambda>_. []) (fileInput s)\<rparr>"

section \<open>QuizView\<close>

datatype sender = User | Ai

record ChatMessage =
  id' :: jsstring
  sender :: sender
  text' :: jsstring

text \<open>An entry of \<open>userAnswers\<close>: \<open>null\<close> or a number.\<close>

datatype answer = Null | Num int

record QuizState =
  currentQuestionIndex :: int
  userAnswers :: "answer list"
  showResults :: bool
  chatMessages :: "ChatMessage list"
  chatInput :: jsstring
  isChatLoading :: bool

text \<open>\<open>n.toString()\<close> for a non-negative integer.\<close>

fun toString :: "nat \<Rightarrow> jsstring" where
  "toString n =
     (if n < 10 then [0x30 + of_nat n]
      else toString (n div 10) @ [0x30 + of_nat (n mod 10)])"

declare toString.simps [simp del]

definition initialState :: "QuizQuestion list \<Rightarrow> QuizState" where
  "initialState questions =
     \<lparr>currentQuestionIndex = 0,
      userAnswers = replicate (length questions) Null,
      showResults = False,
      chatMessages = [],
      chatInput = [],
      isChatLoading = False\<rparr>"

text \<open>The effect that runs when the \<open>questions\<close> prop changes.\<close>

definition questionsEffect :: "QuizQuestion list \<Rightarrow> QuizState \<Rightarrow> QuizState" where
  "questionsEffect questions s =
     s\<lparr>currentQuestionIndex := 0,
       userAnswers := replicate (length questions) Null,
       showResults := False\<rparr>"

text \<open>\<open>userAnswers[currentQuestionIndex]\<close>: \<open>None\<close> is \<open>undefined\<close>, out of range.\<close>

definition currentAnswer :: "QuizState \<Rightarrow> answer option" where
  "currentAnswer s =
     (let i = currentQuestionIndex s
      in if 0 \<le> i \<and> i < int (length (userAnswers s)) then Some (userAnswers s ! nat i) else None)"

definition isAnswered :: "QuizState \<Rightarrow> bool" where
  "isAnswered s \<longleftrightarrow> currentAnswer s \<noteq> Some Null"

text \<open>
  Past the guard the index is in range (the entry is \<open>null\<close>, not \<open>undefined\<close>), so the
  assignment never extends the array.
\<close>

definition handleOptionClick :: "int \<Rightarrow> QuizState \<Rightarrow> QuizState" where
  "handleOptionClick index s =
     (if isAnswered s then s
      else s\<lparr>userAnswers := (userAnswers s)[nat (currentQuestionIndex s) := Num index]\<rparr>)"

definition handleNext :: "QuizQuestion list \<Rightarrow> QuizState \<Rightarrow> QuizState" where
  "handleNext questions s =
     (if currentQuestionIndex s < int (length questions) - 1
      then s\<lparr>currentQuestionIndex := currentQuestionIndex s + 1\<rparr>
      else s\<lparr>showResults := True\<rparr>)"

definition handlePrevious :: "QuizState \<Rightarrow> QuizState" where
  "handlePrevious s =
     (if currentQuestionIndex s > 0
      then s\<lparr>currentQuestionIndex := currentQuestionIndex s - 1\<rparr>
      else s)"

definition resetQuiz :: "QuizQuestion list \<Rightarrow> QuizState \<Rightarrow> QuizState" where
  "resetQuiz questions s =
     s\<lparr>currentQuestionIndex := 0,
       userAnswers := replicate (length questions) Null,
       showResults := False\<rparr>"

text \<open>
  \<open>handleChatSubmit\<close>, with the two readings of \<open>Date.now()\<close>. The reply is appended
  when \<open>askAiTutor\<close> has settled. The handler is one transition: while a request is
  pending \<open>isChatLoading\<close> keeps a second submission out, and no other handler writes
  \<open>chatMessages\<close>.
\<close>

definition handleChatSubmit ::
  "World \<Rightarrow> nat \<Rightarrow> nat \<Rightarrow> jsstring option \<Rightarrow> QuizState \<Rightarrow> QuizState \<times> World" where
  "handleChatSubmit w now later imageSrc s =
     (if trim (chatInput s) = [] \<or> falsy imageSrc \<or> isChatLoading s then (s, w)
      else
        (let userMsg = \<lparr>id' = toString now, sender = User, text' = chatInput s\<rparr>;
             s1 = s\<lparr>chatMessages := chatMessages s @ [userMsg], chatInput := [],
                    isChatLoading := True\<rparr>;
             src = the imageSrc;
             (answer, w') = askAiTutor w (rawBase64 src) (mimeOf src) (text' userMsg);
             reply = (case answer of
                        Inr responseText \<Rightarrow>
                          \<lparr>id' = toString (later + 1), sender = Ai, text' = responseText\<rparr>
                      | Inl err \<Rightarrow>
                          \<lparr>id' = toString (later + 1), sender = Ai,
                           text' = js ''Sorry, I couldn't answer that right now.''\<rparr>)
         in (s1\<lparr>chatMessages := chatMessages s1 @ [reply], isChatLoading := False\<rparr>, w')))"

subsection \<open>The component as a state machine\<close>

text \<open>
  What a render of the component dereferences. Without a question it returns early. In
  the results view \<open>calculateScore\<close> reads \<open>questions[index].correctAnswerIndex\<close> for every
  index of \<open>userAnswers\<close>, and the question view reads \<open>currentQuestion.question\<close>: either
  throws a \<open>TypeError\<close> when that question is \<open>undefined\<close>.
\<close>

definition renderThrows :: "QuizQuestion list \<Rightarrow> QuizState \<Rightarrow> bool" where
  "renderThrows questions s \<longleftrightarrow>
     questions \<noteq> [] \<and>
     (if showResults s then length questions < length (userAnswers s)
      else \<not> (0 \<le> currentQuestionIndex s \<and> currentQuestionIndex s < int (length questions)))"

text \<open>
  The props the handlers read, the component state, and the world. \<open>unmounted\<close> holds
  once a render has thrown: there is no error boundary, so React removes the component
  and none of its handlers runs any more.
\<close>

record QuizView =
  world :: World
  questions :: "QuizQuestion list"
  imageSrc :: "jsstring option"
  quizState :: QuizState
  unmounted :: bool

datatype quizOp =
    OptionClick int
  | Next
  | Previous
  | ResetQuiz
  | QuestionsChanged "QuizQuestion list"
  | ChatInputChanged jsstring
  | ChatSubmit nat nat

text \<open>The render that follows a change of the props or of the state.\<close>

definition rendered :: "QuizView \<Rightarrow> QuizView" where
  "rendered v = (if renderThrows (questions v) (quizState v) then v\<lparr>unmounted := True\<rparr> else v)"

text \<open>
  One operation on the mounted component: a handler sets the state and the component
  renders again. New \<open>questions\<close> are first rendered with the state as it is; the effect
  that resets the state runs only after that render, and is followed by another one.
\<close>

fun mountedStep :: "quizOp \<Rightarrow> QuizView \<Rightarrow> QuizView" where
  "mountedStep (OptionClick index) v =
     rendered (v\<lparr>quizState := handleOptionClick index (quizState v)\<rparr>)"
| "mountedStep Next v = rendered (v\<lparr>quizState := handleNext (questions v) (quizState v)\<rparr>)"
| "mountedStep Previous v = rendered (v\<lparr>quizState := handlePrevious (quizState v)\<rparr>)"
| "mountedStep ResetQuiz v = rendered (v\<lparr>quizState := resetQuiz (questions v) (quizState v)\<rparr>)"
| "mountedStep (QuestionsChanged qs) v =
     (let v1 = rendered (v\<lparr>questions := qs\<rparr>)
      in if unmounted v1 then v1
         else rendered (v1\<lparr>quizState := questionsEffect qs (quizState v1)\<rparr>))"
| "mountedStep (ChatInputChanged txt) v = rendered (v\<lparr>quizState := (quizState v)\<lparr>chatInput := txt\<rparr>\<rparr>)"
| "mountedStep (ChatSubmit now later) v =
     (let (s', w') = handleChatSubmit (world v) now later (imageSrc v) (quizState v)
      in rendered (v\<lparr>world := w', quizState := s'\<rparr>))"

definition quizStep :: "quizOp \<Rightarrow> QuizView \<Rightarrow> QuizView" where
  "quizStep op v = (if unmounted v then v else mountedStep op v)"

definition runQuiz :: "quizOp list \<Rightarrow> QuizView \<Rightarrow> QuizView" where
  "runQuiz ops v = fold quizStep ops v"

text \<open>The invariant of the question index.\<close>

definition indexInRange :: "QuizView \<Rightarrow> bool" where
  "indexInRange v \<longleftrightarrow>
     0 \<le> currentQuestionIndex (quizState v)
     \<and> currentQuestionIndex (quizState v) < int (length (questions v))"

section \<open>Example values\<close>

text \<open>Concrete questions, results, worlds, files and states for the evaluations below.\<close>

definition exampleQuestion :: QuizQuestion where
  "exampleQuestion =
     \<lparr>question = js ''Q?'',
      options = [js ''A'', js ''B'', js ''C'', js ''D''],
      correctAnswerIndex = 1,
      QuizQuestion.explanation = js ''E''\<rparr>"

definition exampleResult :: AnalysisResult where
  "exampleResult =
     \<lparr>title = js ''T'',
      explanation = js ''## H'',
      relationshipDescription = js ''R'',
      quiz = [exampleQuestion]\<rparr>"

text \<open>A world where the model answers, and one where every request throws.\<close>

definition onlineWorld :: World where
  "onlineWorld =
     \<lparr>apiKey = True,
      respond = (\<lambda>history req. Inr (Some (js ''{}''))),
      parseAnalysis = (\<lambda>txt. Some exampleResult),
      parseQuiz = (\<lambda>txt. Some [exampleQuestion, exampleQuestion]),
      calls = []\<rparr>"

definition offlineWorld :: World where
  "offlineWorld = onlineWorld\<lparr>respond := (\<lambda>history req. Inl (newError ''offline''))\<rparr>"

definition pngFile :: File where
  "pngFile =
     \<lparr>type' = js ''image/png'',
      readFileAsBase64 = Inr (js ''data:image/png;base64,QQ=='')\<rparr>"

definition textFile :: File where
  "textFile =
     \<lparr>type' = js ''text/plain'',
      readFileAsBase64 = Inr (js ''data:text/plain;base64,QQ=='')\<rparr>"

definition unreadableFile :: File where
  "unreadableFile = \<lparr>type' = js ''image/png'', readFileAsBase64 = Inl (Thrown None)\<rparr>"

definition initialApp :: App where
  "initialApp =
     \<lparr>image' = None, result = None, processingState = \<lparr>status = Idle, error = None\<rparr>,
      isDragging = False, isGeneratingMore = False, fileInput = Some []\<rparr>"

text \<open>
  A session with two images. The model answers the first request with \<open>"1"\<close> and every
  later one with \<open>"2"\<close>; \<open>"1"\<close> parses to \<open>exampleResult\<close> and \<open>"2"\<close> to another
  result.
\<close>

definition otherResult :: AnalysisResult where
  "otherResult =
     \<lparr>title = js ''U'',
      explanation = js ''## G'',
      relationshipDescription = js ''S'',
      quiz = [exampleQuestion]\<rparr>"

definition sessionWorld :: World where
  "sessionWorld =
     \<lparr>apiKey = True,
      respond = (\<lambda>history req. Inr (Some (case history of [] \<Rightarrow> js ''1'' | _ \<Rightarrow> js ''2''))),
      parseAnalysis = (\<lambda>txt. Some (if txt = js ''1'' then exampleResult else otherResult)),
      parseQuiz = (\<lambda>txt. Some [exampleQuestion, exampleQuestion]),
      calls = []\<rparr>"

definition jpgFile :: File where
  "jpgFile =
     \<lparr>type' = js ''image/jpeg'',
      readFileAsBase64 = Inr (js ''data:image/jpeg;base64,Rg=='')\<rparr>"

text \<open>The first image is analysed, and more questions are requested for it.\<close>

definition firstAnalysis :: "App \<times> World" where
  "firstAnalysis = processFile sessionWorld pngFile initialApp"

definition generating :: "(App \<times> GenerateMore option) \<times> World" where
  "generating = handleGenerateMoreQuestions (snd firstAnalysis) (fst firstAnalysis)"

definition generatingApp :: App where
  "generatingApp = fst (fst generating)"

definition pendingGeneration :: GenerateMore where
  "pendingGeneration = the (snd (fst generating))"

text \<open>
  Before the questions arrive the user resets the application and has the second image
  analysed.
\<close>

definition reanalysedApp :: App where
  "reanalysedApp = fst (processFile (snd generating) jpgFile (handleReset generatingApp))"

text \<open>
  A quiz of two questions with the image present, and the same quiz without an image
  and with a question typed into the chat input.
\<close>

definition exampleView :: QuizView where
  "exampleView =
     \<lparr>world = onlineWorld,
      questions = [exampleQuestion, exampleQuestion],
      imageSrc = Some (js ''data:image/png;base64,QQ==''),
      quizState = (initialState [exampleQuestion, exampleQuestion])\<lparr>chatInput := js ''Why?''\<rparr>,
      unmounted = False\<rparr>"

definition viewWithoutImage :: QuizView where
  "viewWithoutImage = exampleView\<lparr>imageSrc := None\<rparr>"

section \<open>Properties of the formatter\<close>

subsection \<open>The loop\<close>

lemma isBullet_Nil [simp]: "\<not> isBullet []"
  by (simp add: isBullet_def trim_def startsWith_def js_def)

lemma flush_cond:
  "(case rest of [] \<Rightarrow> True | nextLine # _ \<Rightarrow> nextLine = [] \<or> \<not> isBullet nextLine)
     = (rest = [] \<or> \<not> isBullet (hd rest))"
  by (cases rest) auto

lemma formatLoop_eq:
  "formatLoop i xs (els, cur) = (els @ emitted i xs cur, carried i xs cur)"
  by (induction xs arbitrary: i els cur) (simp_all add: flush_cond Let_def)

lemma formatText_emitted: "formatText text = emitted 0 (splitChar 0x0A text) []"
  by (simp add: formatText_def formatLoop_eq)

text \<open>Nothing is pending after a loop that started with nothing pending, or on a bullet line.\<close>

lemma carried_flushed:
  "cur = [] \<or> (xs \<noteq> [] \<and> isBullet (hd xs)) \<Longrightarrow> carried i xs cur = []"
proof (induction xs arbitrary: i cur)
  case Nil
  then show ?case by simp
next
  case (Cons line rest)
  show ?case
  proof (cases "isBullet line")
    case True
    then show ?thesis using Cons.IH by simp
  next
    case False
    with Cons.prems have "cur = []" by simp
    with False show ?thesis using Cons.IH by simp
  qed
qed

text \<open>A run of bullet lines that ends before \<open>post\<close> becomes one list node.\<close>

lemma emitted_run:
  "run \<noteq> [] \<Longrightarrow> \<forall>l\<in>set run. isBullet l \<Longrightarrow> post = [] \<or> \<not> isBullet (hd post) \<Longrightarrow>
   emitted i (run @ post) cur =
     BulletList (i + length run - 1) (cur @ map (\<lambda>(k, l). bulletItem k l) (enumerate i run))
       # emitted (i + length run) post []"
proof (induction run arbitrary: i cur)
  case Nil
  then show ?case by simp
next
  case (Cons line rest)
  show ?case
  proof (cases "rest = []")
    case True
    with Cons.prems show ?thesis by auto
  next
    case False
    then have "hd (rest @ post) = hd rest" by simp
    moreover from False Cons.prems have "isBullet (hd rest)" by simp
    ultimately show ?thesis
      using False Cons.prems Cons.IH [of "Suc i" "cur @ [bulletItem i line]"] by simp
  qed
qed

text \<open>The loop can be cut after a line that is no bullet line.\<close>

lemma emitted_append:
  "pre = [] \<or> \<not> isBullet (last pre) \<Longrightarrow>
   emitted i (pre @ ys) cur = emitted i pre cur @ emitted (i + length pre) ys (carried i pre cur)"
proof (induction pre arbitrary: i cur)
  case Nil
  then show ?case by simp
next
  case (Cons line rest)
  show ?case
  proof (cases "rest = []")
    case True
    with Cons.prems show ?thesis by simp
  next
    case False
    then have "hd (rest @ ys) = hd rest" by simp
    then show ?thesis
      using False Cons.prems Cons.IH by simp
  qed
qed

subsection \<open>Lines and nodes\<close>

text \<open>
  Every branch after the bullet branch pushes one node, except the numbered-list branch
  when the match on the untrimmed line fails. Without such a line every input line is
  accounted for: the lines the nodes stand for are as many as the input has.
\<close>

lemma blockNodes_one:
  "\<not> (numberedTest (trim line) \<and> numberedMatch line = None) \<Longrightarrow>
   \<exists>n. blockNodes i line = [n] \<and> nodeLines n = 1"
  by (auto simp: blockNodes_def split: option.splits)

lemma emitted_lines:
  "\<forall>l\<in>set xs. \<not> (numberedTest (trim l) \<and> numberedMatch l = None) \<Longrightarrow>
   sum_list (map nodeLines (emitted i xs cur)) + length (carried i xs cur)
     = length cur + length xs"
proof (induction xs arbitrary: i cur)
  case Nil
  show ?case by simp
next
  case (Cons line rest)
  show ?case
  proof (cases "isBullet line")
    case True
    then show ?thesis using Cons.IH Cons.prems by simp
  next
    case False
    from Cons.prems obtain n where "blockNodes i line = [n]" "nodeLines n = 1"
      using blockNodes_one [of line i] by auto
    with False show ?thesis using Cons.IH Cons.prems by simp
  qed
qed

lemma formatText_lines:
  "\<forall>l\<in>set (splitChar 0x0A text). \<not> (numberedTest (trim l) \<and> numberedMatch l = None) \<Longrightarrow>
   sum_list (map nodeLines (formatText text)) = length (splitChar 0x0A text)"
  using emitted_lines [of "splitChar 0x0A text" 0 "[]"]
  by (simp add: formatText_emitted carried_flushed)

text \<open>
  The lines that pass the test on the trimmed line and fail the match are the numbered
  lines that start with whitespace.
\<close>

lemma trim_prefix:
  "line = [] \<or> \<not> isWhiteSpace (hd line) \<Longrightarrow> \<exists>t. line = trim line @ t"
proof -
  assume "line = [] \<or> \<not> isWhiteSpace (hd line)"
  then have "dropWhile isWhiteSpace line = line"
    by (cases line) auto
  then have "trim line = rev (dropWhile isWhiteSpace (rev line))"
    by (simp add: trim_def)
  moreover have "line = rev (dropWhile isWhiteSpace (rev line)) @ rev (takeWhile isWhiteSpace (rev line))"
    by (metis rev_append rev_rev_ident takeWhile_dropWhile_id)
  ultimately show ?thesis by metis
qed

lemma numberedTest_append: "numberedTest p \<Longrightarrow> numberedTest (p @ t)"
proof -
  assume p: "numberedTest p"
  then obtain d w r where r: "dropWhile isDigit p = d # w # r"
    by (auto simp: numberedTest_def split: list.splits)
  then have "d \<in> set p" "\<not> isDigit d"
    by (metis list.set_intros(1) set_dropWhileD, metis hd_dropWhile list.sel(1) list.distinct(1))
  then have "takeWhile isDigit (p @ t) = takeWhile isDigit p"
    "dropWhile isDigit (p @ t) = dropWhile isDigit p @ t"
    by auto
  with p r show ?thesis
    by (simp add: numberedTest_def)
qed

lemma whitespace_not_digit: "isWhiteSpace c \<Longrightarrow> \<not> isDigit c"
proof -
  have "0x2000 \<le> c \<Longrightarrow> c \<le> 0x39 \<Longrightarrow> (0x2000 :: jschar) \<le> 0x39"
    by (rule order_trans)
  then have "\<not> (0x2000 \<le> c \<and> c \<le> 0x39)"
    by auto
  then show "isWhiteSpace c \<Longrightarrow> \<not> isDigit c"
    by (auto simp: isWhiteSpace_def isLineTerminator_def isDigit_def)
qed

lemma dropped_iff:
  "numberedTest (trim line) \<and> numberedMatch line = None \<longleftrightarrow>
   numberedTest (trim line) \<and> line \<noteq> [] \<and> isWhiteSpace (hd line)"
proof (cases "line = [] \<or> \<not> isWhiteSpace (hd line)")
  case True
  then obtain t where "line = trim line @ t"
    using trim_prefix by blast
  then have "numberedTest (trim line) \<Longrightarrow> numberedTest line"
    using numberedTest_append by metis
  with True show ?thesis
    by (auto simp: numberedMatch_def)
next
  case False
  then obtain c cs where "line = c # cs" "isWhiteSpace c"
    by (cases line) auto
  then have "\<not> numberedTest line"
    by (simp add: numberedTest_def whitespace_not_digit)
  with False show ?thesis
    by (simp add: numberedMatch_def)
qed

text \<open>
  Claim C1 says that every input line gives exactly one node and that no line is dropped.
  The numbered-list branch tests the trimmed line and then matches the untrimmed one, so
  an indented numbered line passes the test, fails the match and pushes nothing: the
  one-line input \<open>" 1. a"\<close> is formatted to no node at all.
\<close>

theorem formatText_drops_indented_numbered_line:
  "formatText (js '' 1. a'') = []
   \<and> numberedTest (trim (js '' 1. a'')) \<and> numberedMatch (js '' 1. a'') = None"
  by code_simp

subsection \<open>Bullet lists\<close>

text \<open>
  Claim C2: every maximal run of consecutive bullet lines gives exactly one bullet-list
  node holding one item per line of the run, in order, and nothing is left in
  \<open>currentListItems\<close> when the loop ends. With the lines of the input cut into the lines
  \<open>pre\<close> before the run, the run and the lines \<open>post\<close> after it, the output is the
  output for \<open>pre\<close>, then the single list node of the run (keyed by the index of its
  last line, its items keyed by their line indices), then the output for \<open>post\<close>.
\<close>

theorem formatText_bullet_runs:
  assumes "splitChar 0x0A text = pre @ run @ post"
    and "run \<noteq> []"
    and "\<forall>l\<in>set run. isBullet l"
    and "pre = [] \<or> \<not> isBullet (last pre)"
    and "post = [] \<or> \<not> isBullet (hd post)"
  shows "formatText text =
           fst (formatLoop 0 pre ([], []))
           @ [BulletList (length pre + length run - 1)
                (map (\<lambda>(i, line). bulletItem i line) (enumerate (length pre) run))]
           @ fst (formatLoop (length pre + length run) post ([], []))
         \<and> snd (formatLoop 0 (splitChar 0x0A text) ([], [])) = []"
proof -
  have "carried 0 pre [] = []"
    by (simp add: carried_flushed)
  then have "emitted 0 (pre @ run @ post) [] = emitted 0 pre [] @ emitted (length pre) (run @ post) []"
    using assms(4) emitted_append [of pre 0 "run @ post" "[]"] by simp
  also have "emitted (length pre) (run @ post) [] =
      BulletList (length pre + length run - 1)
        (map (\<lambda>(i, line). bulletItem i line) (enumerate (length pre) run))
      # emitted (length pre + length run) post []"
    using emitted_run [OF assms(2,3,5), of "length pre" "[]"] by simp
  finally show ?thesis
    using assms(1) by (simp add: formatText_def formatLoop_eq carried_flushed)
qed

theorem formatText_bullet_runs_witness:
  "formatText (js ''a'' @ [0x0A] @ js ''- x'' @ [0x0A] @ js ''  - y'' @ [0x0A] @ js ''b'') =
     [Paragraph 0 [Plain (js ''a'')],
      BulletList 2 [ListItem 1 [Plain (js ''x'')], ListItem 2 [Plain (js ''  y'')]],
      Paragraph 3 [Plain (js ''b'')]]
   \<and> snd (formatLoop 0
       (splitChar 0x0A (js ''a'' @ [0x0A] @ js ''- x'' @ [0x0A] @ js ''  - y'' @ [0x0A] @ js ''b''))
       ([], [])) = []"
proof -
  let ?text = "js ''a'' @ [0x0A] @ js ''- x'' @ [0x0A] @ js ''  - y'' @ [0x0A] @ js ''b''"
  have lines: "splitChar 0x0A ?text = [js ''a''] @ [js ''- x'', js ''  - y''] @ [js ''b'']"
    by code_simp
  have run: "[js ''- x'', js ''  - y''] \<noteq> []"
    by simp
  have bullets: "\<forall>l\<in>set [js ''- x'', js ''  - y'']. isBullet l"
    by code_simp
  have before: "[js ''a''] = [] \<or> \<not> isBullet (last [js ''a''])"
    by code_simp
  have after: "[js ''b''] = [] \<or> \<not> isBullet (hd [js ''b''])"
    by code_simp
  have pre: "fst (formatLoop 0 [js ''a''] ([], [])) = [Paragraph 0 [Plain (js ''a'')]]"
    by code_simp
  have post: "fst (formatLoop (length [js ''a''] + length [js ''- x'', js ''  - y''])
        [js ''b''] ([], [])) = [Paragraph 3 [Plain (js ''b'')]]"
    by code_simp
  have list: "BulletList (length [js ''a''] + length [js ''- x'', js ''  - y''] - 1)
        (map (\<lambda>(i, line). bulletItem i line)
          (enumerate (length [js ''a'']) [js ''- x'', js ''  - y'']))
      = BulletList 2 [ListItem 1 [Plain (js ''x'')], ListItem 2 [Plain (js ''  y'')]]"
    by code_simp
  from formatText_bullet_runs [OF lines run bullets before after]
  show ?thesis
    by (simp only: pre post list append_Cons append_Nil)
qed

subsection \<open>Inline styles\<close>

text \<open>
  A pair of delimiters around a body without stars and line terminators, between texts
  without stars, gives the text before, the bold body and the text after.
\<close>

lemma stars: "js ''**'' = [0x2A, 0x2A]"
  by (simp add: js_def)

lemma boldMatch_no_star: "c \<noteq> 0x2A \<Longrightarrow> boldMatch (c # cs) = None"
  by (simp add: boldMatch_def startsWith_def stars)

lemma splitBold_plain:
  "\<forall>c\<in>set a. c \<noteq> 0x2A \<Longrightarrow> splitBold cur (a @ rest) = splitBold (cur @ a) rest"
  by (induction a arbitrary: cur) (simp_all add: boldMatch_no_star)

lemma lazyBody_plain:
  "\<forall>c\<in>set b. c \<noteq> 0x2A \<and> \<not> isLineTerminator c \<Longrightarrow>
   lazyBody (b @ js ''**'' @ rest) = Some (b, rest)"
  by (induction b) (simp_all add: startsWith_def stars)

lemma boldMatch_pair:
  "\<forall>c\<in>set b. c \<noteq> 0x2A \<and> \<not> isLineTerminator c \<Longrightarrow>
   boldMatch (js ''**'' @ b @ js ''**'' @ rest) = Some (js ''**'' @ b @ js ''**'', rest)"
  using lazyBody_plain [of b rest]
  by (simp add: boldMatch_def startsWith_def stars)

lemma styledPart_plain: "\<forall>c\<in>set a. c \<noteq> 0x2A \<Longrightarrow> styledPart i a = Plain a"
  by (cases a) (auto simp: styledPart_def startsWith_def stars)

lemma styledPart_pair: "styledPart i (js ''**'' @ b @ js ''**'') = Strong i b"
proof -
  have "nat (2 + int (length b)) = Suc (Suc (length b))"
    by simp
  then have "slice 2 (- 2) (js ''**'' @ b @ js ''**'') = b"
    by (simp add: slice_def stars)
  then show ?thesis
    by (simp add: styledPart_def startsWith_def endsWith_def stars)
qed

lemma parseInlineStyles_pair:
  assumes "\<forall>c\<in>set a. c \<noteq> 0x2A"
    and "\<forall>c\<in>set b. c \<noteq> 0x2A \<and> \<not> isLineTerminator c"
    and "\<forall>c\<in>set d. c \<noteq> 0x2A"
  shows "parseInlineStyles (a @ js ''**'' @ b @ js ''**'' @ d) = [Plain a, Strong 1 b, Plain d]"
proof -
  have "splitBold [] (a @ js ''**'' @ b @ js ''**'' @ d) = splitBold a (js ''**'' @ b @ js ''**'' @ d)"
    using splitBold_plain [OF assms(1), of "[]"] by simp
  also have "\<dots> = a # (js ''**'' @ b @ js ''**'') # splitBold [] d"
    using boldMatch_pair [OF assms(2), of d] by (simp add: stars)
  also have "splitBold [] d = [d]"
    using splitBold_plain [OF assms(3), of "[]" "[]"] by simp
  finally show ?thesis
    using assms by (simp add: parseInlineStyles_def styledPart_plain styledPart_pair)
qed

text \<open>
  The dot of the regular expression matches no line terminator: a pair with a carriage
  return inside is not a match of the split.
\<close>

lemma parseInlineStyles_carriage_return:
  "parseInlineStyles (js ''x**a'' @ [0x0D] @ js ''b**'') = [Plain (js ''x**a'' @ [0x0D] @ js ''b**'')]"
  by code_simp

text \<open>
  Claim C4 says that exactly the substrings enclosed by a pair of \<open>**\<close> become bold spans
  and that everything else is emitted unchanged. \<open>parseInlineStyles\<close> recognises a match
  of the split by testing that the piece starts and ends with \<open>**\<close>, which a piece
  consisting of a lone \<open>**\<close> also does: it is emitted as an empty bold span and its two
  stars are lost. A complete pair is handled as claimed.
\<close>

theorem parseInlineStyles_lone_delimiter:
  "parseInlineStyles (js ''**'') = [Strong 0 []]
   \<and> parseInlineStyles (js ''a **b** c'') = [Plain (js ''a ''), Strong 1 (js ''b''), Plain (js '' c'')]"
  by code_simp

subsection \<open>Headings\<close>

lemma startsWith_iff: "startsWith p s \<longleftrightarrow> (\<exists>r. s = p @ r)"
  unfolding startsWith_def by (metis append_eq_conv_conj)

lemma trim_Cons:
  "\<not> isWhiteSpace c \<Longrightarrow> trim (c # cs) = c # rev (dropWhile isWhiteSpace (rev cs))"
  by (simp add: trim_def dropWhile_append3)

lemma hash_not_bullet: "\<not> isBullet (0x23 # cs)"
proof -
  have "\<not> isWhiteSpace (0x23 :: jschar)"
    by (simp add: isWhiteSpace_def isLineTerminator_def)
  then show ?thesis
    by (simp add: isBullet_def trim_Cons startsWith_def js_def)
qed

lemma h2_line: "startsWith (js ''## '') line \<longleftrightarrow> (\<exists>r. line = 0x23 # 0x23 # 0x20 # r)"
  by (simp add: startsWith_iff js_def)

lemma h3_line: "startsWith (js ''### '') line \<longleftrightarrow> (\<exists>r. line = 0x23 # 0x23 # 0x23 # 0x20 # r)"
  by (simp add: startsWith_iff js_def)

text \<open>Replacing the first occurrence of a prefix by nothing removes the prefix.\<close>

lemma replaceFirst_prefix:
  "startsWith p s \<Longrightarrow> p \<noteq> [] \<Longrightarrow> replaceFirst p [] s = drop (length p) s"
  by (cases s) (auto simp: startsWith_def)

lemma heading_blockNodes:
  "Heading lvl k t \<in> set (blockNodes i line) \<longleftrightarrow>
     k = i \<and> ((lvl = 2 \<and> startsWith (js ''## '') line \<and> t = drop 3 line)
            \<or> (lvl = 3 \<and> startsWith (js ''### '') line \<and> t = drop 4 line))"
proof (cases "startsWith (js ''## '') line")
  case True
  then have "\<not> startsWith (js ''### '') line"
    by (auto simp: h2_line h3_line)
  moreover have "length (js ''## '') = 3" "js ''## '' \<noteq> []"
    by (simp_all add: js_def)
  then have "replaceFirst (js ''## '') [] line = drop 3 line"
    using replaceFirst_prefix [OF True] by simp
  ultimately show ?thesis
    using True by (auto simp: blockNodes_def)
next
  case False
  show ?thesis
  proof (cases "startsWith (js ''### '') line")
    case True
    have "length (js ''### '') = 4" "js ''### '' \<noteq> []"
      by (simp_all add: js_def)
    then have "replaceFirst (js ''### '') [] line = drop 4 line"
      using replaceFirst_prefix [OF True] by simp
    then show ?thesis
      using True False by (auto simp: blockNodes_def)
  next
    case h3: False
    then show ?thesis
      using False by (auto simp: blockNodes_def split: option.splits)
  qed
qed

lemma heading_emitted:
  "Heading lvl k t \<in> set (emitted i xs cur) \<longleftrightarrow>
     (\<exists>j<length xs. k = i + j \<and>
        ((lvl = 2 \<and> startsWith (js ''## '') (xs ! j) \<and> t = drop 3 (xs ! j))
       \<or> (lvl = 3 \<and> startsWith (js ''### '') (xs ! j) \<and> t = drop 4 (xs ! j))))"
proof (induction xs arbitrary: i cur)
  case Nil
  show ?case by simp
next
  case (Cons line rest)
  have nb: "\<not> isBullet line"
    if "startsWith (js ''## '') line \<or> startsWith (js ''### '') line"
    using that by (auto simp: h2_line h3_line hash_not_bullet)
  show ?case
  proof (cases "isBullet line")
    case True
    with nb have "\<not> startsWith (js ''## '') line" "\<not> startsWith (js ''### '') line"
      by auto
    with True show ?thesis
      by (simp add: Cons.IH Ex_less_Suc2)
  next
    case False
    then show ?thesis
      by (simp add: Cons.IH Ex_less_Suc2 heading_blockNodes)
  qed
qed

text \<open>
  Claim C5: the heading nodes of the output are exactly these: for every line \<open>k\<close> that
  starts with \<open>"## "\<close> a level-2 heading whose text is the line without its first three
  characters, and for every line \<open>k\<close> that starts with \<open>"### "\<close> a level-3 heading whose
  text is the line without its first four characters. No heading of another level and
  no heading for another line is produced.
\<close>

theorem formatText_headings:
  "Heading lvl k t \<in> set (formatText text) \<longleftrightarrow>
     k < length (splitChar 0x0A text) \<and>
     (let line = splitChar 0x0A text ! k
      in (lvl = 2 \<and> startsWith (js ''## '') line \<and> t = drop 3 line)
       \<or> (lvl = 3 \<and> startsWith (js ''### '') line \<and> t = drop 4 line))"
  by (auto simp: formatText_emitted heading_emitted Let_def)

theorem formatText_headings_witness:
  "Heading 2 0 (js ''Title'') \<in> set (formatText (js ''## Title'' @ [0x0A] @ js ''### Parts''))
   \<and> Heading 3 1 (js ''Parts'') \<in> set (formatText (js ''## Title'' @ [0x0A] @ js ''### Parts''))
   \<and> Heading 1 0 (js ''Title'') \<notin> set (formatText (js ''## Title'' @ [0x0A] @ js ''### Parts''))"
  unfolding formatText_headings by code_simp

section \<open>Properties of the quiz\<close>

subsection \<open>The question index\<close>

lemma handleChatSubmit_quiz:
  "currentQuestionIndex (fst (handleChatSubmit w now later src s)) = currentQuestionIndex s
   \<and> userAnswers (fst (handleChatSubmit w now later src s)) = userAnswers s
   \<and> showResults (fst (handleChatSubmit w now later src s)) = showResults s"
  by (simp add: handleChatSubmit_def Let_def split: prod.splits)

text \<open>The fields after a step.\<close>

lemma rendered_fields [simp]:
  "quizState (rendered v) = quizState v"
  "questions (rendered v) = questions v"
  "unmounted (rendered v) \<longleftrightarrow> unmounted v \<or> renderThrows (questions v) (quizState v)"
  by (simp_all add: rendered_def)

lemma quizState_quizStep:
  "quizState (quizStep op v) =
     (if unmounted v then quizState v
      else (case op of
              OptionClick index \<Rightarrow> handleOptionClick index (quizState v)
            | Next \<Rightarrow> handleNext (questions v) (quizState v)
            | Previous \<Rightarrow> handlePrevious (quizState v)
            | ResetQuiz \<Rightarrow> resetQuiz (questions v) (quizState v)
            | QuestionsChanged qs \<Rightarrow>
                if renderThrows qs (quizState v) then quizState v
                else questionsEffect qs (quizState v)
            | ChatInputChanged txt \<Rightarrow> (quizState v)\<lparr>chatInput := txt\<rparr>
            | ChatSubmit now later \<Rightarrow>
                fst (handleChatSubmit (world v) now later (imageSrc v) (quizState v))))"
  by (cases op) (simp_all add: quizStep_def Let_def split_beta)

lemma questions_quizStep:
  "questions (quizStep op v) =
     (if unmounted v then questions v
      else (case op of QuestionsChanged qs \<Rightarrow> qs | _ \<Rightarrow> questions v))"
  by (cases op) (simp_all add: quizStep_def Let_def split_beta)

lemma unmounted_quizStep:
  "unmounted (quizStep op v) \<longleftrightarrow>
     unmounted v
     \<or> (case op of QuestionsChanged qs \<Rightarrow> renderThrows qs (quizState v) | _ \<Rightarrow> False)
     \<or> renderThrows (questions (quizStep op v)) (quizState (quizStep op v))"
  by (cases op) (auto simp: quizStep_def Let_def split_beta)

lemma runQuiz_unmounted: "unmounted v \<Longrightarrow> runQuiz ops v = v"
  by (induction ops) (simp_all add: runQuiz_def quizStep_def)

text \<open>
  While the component is mounted the index is in range, provided the question list is
  never replaced by an empty one.
\<close>

lemma quizStep_indexInRange:
  assumes "indexInRange v" and "\<forall>qs. op = QuestionsChanged qs \<longrightarrow> qs \<noteq> []"
  shows "unmounted (quizStep op v) \<or> indexInRange (quizStep op v)"
proof (cases "unmounted v")
  case True
  then show ?thesis by (simp add: quizStep_def)
next
  case False
  show ?thesis
  proof (cases op)
    case (QuestionsChanged qs)
    with assms False show ?thesis
      by (auto simp: indexInRange_def quizState_quizStep questions_quizStep unmounted_quizStep
          questionsEffect_def)
  next
    case (ChatSubmit now later)
    with assms False show ?thesis
      using handleChatSubmit_quiz [of "world v" now later "imageSrc v" "quizState v"]
      by (simp add: indexInRange_def quizState_quizStep questions_quizStep)
  qed (use assms False in \<open>auto simp: indexInRange_def quizState_quizStep questions_quizStep
        handleOptionClick_def handleNext_def handlePrevious_def resetQuiz_def\<close>)
qed

lemma runQuiz_indexInRange:
  "indexInRange v \<Longrightarrow> \<forall>qs. QuestionsChanged qs \<in> set ops \<longrightarrow> qs \<noteq> [] \<Longrightarrow>
   unmounted (runQuiz ops v) \<or> indexInRange (runQuiz ops v)"
proof (induction ops arbitrary: v)
  case Nil
  then show ?case by (simp add: runQuiz_def)
next
  case (Cons op ops)
  from Cons.prems have step: "unmounted (quizStep op v) \<or> indexInRange (quizStep op v)"
    by (intro quizStep_indexInRange) auto
  have run: "runQuiz (op # ops) v = runQuiz ops (quizStep op v)"
    by (simp add: runQuiz_def)
  show ?case
  proof (cases "unmounted (quizStep op v)")
    case True
    then show ?thesis by (simp add: run runQuiz_unmounted)
  next
    case False
    with step Cons.prems Cons.IH [of "quizStep op v"] show ?thesis
      by (simp add: run)
  qed
qed

text \<open>What the handlers do to the index.\<close>

lemma handlers_index:
  "currentQuestionIndex (handleNext qs s) =
     (if currentQuestionIndex s < int (length qs) - 1 then currentQuestionIndex s + 1
      else currentQuestionIndex s)
   \<and> showResults (handleNext qs s) =
     (if currentQuestionIndex s < int (length qs) - 1 then showResults s else True)
   \<and> currentQuestionIndex (handlePrevious s) =
     (if currentQuestionIndex s > 0 then currentQuestionIndex s - 1 else currentQuestionIndex s)
   \<and> currentQuestionIndex (resetQuiz qs s) = 0
   \<and> currentQuestionIndex (questionsEffect qs s) = 0"
  by (simp add: handleNext_def handlePrevious_def resetQuiz_def questionsEffect_def)

text \<open>
  New questions reset the state when the render with the old state does not throw, as
  it does not for a list at least as long as the old one.
\<close>

lemma questions_change_resets:
  assumes "\<not> unmounted v" and "\<not> renderThrows qs (quizState v)"
  shows "quizStep (QuestionsChanged qs) v = v\<lparr>questions := qs, quizState := questionsEffect qs (quizState v)\<rparr>"
  using assms
  by (auto simp: quizStep_def rendered_def Let_def renderThrows_def questionsEffect_def
      split: if_splits)

lemma longer_list_renders:
  "indexInRange v \<Longrightarrow> length (questions v) \<le> length qs \<Longrightarrow>
   length (userAnswers (quizState v)) \<le> length qs \<Longrightarrow> \<not> renderThrows qs (quizState v)"
  by (auto simp: indexInRange_def renderThrows_def)

text \<open>The renders after the handlers do not throw.\<close>

lemma handlers_render:
  assumes "\<not> unmounted v" and "indexInRange v"
    and "length (userAnswers (quizState v)) = length (questions v)"
    and "\<forall>qs. op \<noteq> QuestionsChanged qs"
  shows "\<not> unmounted (quizStep op v) \<and> indexInRange (quizStep op v)
    \<and> length (userAnswers (quizState (quizStep op v))) = length (questions (quizStep op v))"
proof (cases op)
  case (ChatSubmit now later)
  with assms show ?thesis
    using handleChatSubmit_quiz [of "world v" now later "imageSrc v" "quizState v"]
    by (simp add: indexInRange_def quizState_quizStep questions_quizStep unmounted_quizStep
        renderThrows_def)
qed (use assms in \<open>auto simp: indexInRange_def quizState_quizStep questions_quizStep
      unmounted_quizStep renderThrows_def handleOptionClick_def handleNext_def
      handlePrevious_def resetQuiz_def\<close>)

text \<open>
  Claim C6 says that the question index stays between 0 and \<open>questions.length - 1\<close>
  under every operation and that a change of the questions sets it back to 0. The reset
  is an effect, which runs only after the component has rendered with the new questions
  and the old state. With both questions of a quiz of two done and the results shown,
  a new list of one question makes that render throw in \<open>calculateScore\<close>: the component
  is removed with the index still 1, out of range for the new list and not reset. The
  same happens in the question view at the second question.
\<close>

theorem shorter_question_list_unmounts_quiz:
  "indexInRange (runQuiz [Next, Next] exampleView)
   \<and> \<not> unmounted (runQuiz [Next, Next] exampleView)
   \<and> showResults (quizState (runQuiz [Next, Next] exampleView))
   \<and> userAnswers (quizState (runQuiz [Next, Next] exampleView)) = [Null, Null]
   \<and> unmounted (quizStep (QuestionsChanged [exampleQuestion]) (runQuiz [Next, Next] exampleView))
   \<and> currentQuestionIndex (quizState
        (quizStep (QuestionsChanged [exampleQuestion]) (runQuiz [Next, Next] exampleView))) = 1
   \<and> \<not> indexInRange
        (quizStep (QuestionsChanged [exampleQuestion]) (runQuiz [Next, Next] exampleView))
   \<and> unmounted (quizStep (QuestionsChanged [exampleQuestion]) (runQuiz [Next] exampleView))"
  by code_simp

subsection \<open>Recorded answers\<close>

lemma handleOptionClick_answers:
  "length (userAnswers (handleOptionClick i s)) = length (userAnswers s)
   \<and> (userAnswers s ! j \<noteq> Null \<or> int j \<noteq> currentQuestionIndex s \<longrightarrow>
        userAnswers (handleOptionClick i s) ! j = userAnswers s ! j)"
  by (auto simp: handleOptionClick_def isAnswered_def currentAnswer_def Let_def nth_list_update)

lemma quizStep_answers:
  assumes "op \<noteq> ResetQuiz" "\<forall>qs. op \<noteq> QuestionsChanged qs"
  shows "length (userAnswers (quizState (quizStep op v))) = length (userAnswers (quizState v))
   \<and> (userAnswers (quizState v) ! j \<noteq> Null \<longrightarrow>
        userAnswers (quizState (quizStep op v)) ! j = userAnswers (quizState v) ! j)"
proof (cases op)
  case (OptionClick i)
  then show ?thesis
    using handleOptionClick_answers [of i "quizState v" j] by (simp add: quizState_quizStep)
next
  case (ChatSubmit now later)
  then show ?thesis
    using handleChatSubmit_quiz [of "world v" now later "imageSrc v" "quizState v"]
    by (simp add: quizState_quizStep)
qed (use assms in \<open>auto simp: quizState_quizStep handleNext_def handlePrevious_def\<close>)

lemma runQuiz_answers:
  "ResetQuiz \<notin> set ops \<Longrightarrow> \<forall>qs. QuestionsChanged qs \<notin> set ops \<Longrightarrow>
   length (userAnswers (quizState (runQuiz ops v))) = length (userAnswers (quizState v))
   \<and> (userAnswers (quizState v) ! j \<noteq> Null \<longrightarrow>
        userAnswers (quizState (runQuiz ops v)) ! j = userAnswers (quizState v) ! j)"
proof (induction ops arbitrary: v)
  case Nil
  then show ?case by (simp add: runQuiz_def)
next
  case (Cons op ops)
  from Cons.prems have op: "op \<noteq> ResetQuiz" "\<forall>qs. op \<noteq> QuestionsChanged qs"
    by auto
  from Cons.prems have "ResetQuiz \<notin> set ops" "\<forall>qs. QuestionsChanged qs \<notin> set ops"
    by auto
  from Cons.IH [OF this, of "quizStep op v"] quizStep_answers [OF op, of v j]
  show ?case
    by (auto simp: runQuiz_def)
qed

text \<open>
  Claim C10: a recorded answer stays until a reset. On an answered question
  \<open>handleOptionClick\<close> changes nothing; on an unanswered one it replaces the \<open>null\<close>
  entry of the current question by the chosen number; it never changes the length of
  \<open>userAnswers\<close> nor an entry of another question; and over any sequence of operations
  without \<open>resetQuiz\<close> and without a change of the questions, an entry that holds a
  number keeps it.
\<close>

theorem answers_recorded_once:
  "(isAnswered s \<longrightarrow> handleOptionClick index s = s)
   \<and> (\<not> isAnswered s \<longrightarrow>
        userAnswers s ! nat (currentQuestionIndex s) = Null
        \<and> userAnswers (handleOptionClick index s) =
            (userAnswers s)[nat (currentQuestionIndex s) := Num index])
   \<and> length (userAnswers (handleOptionClick index s)) = length (userAnswers s)
   \<and> (int j \<noteq> currentQuestionIndex s \<longrightarrow>
        userAnswers (handleOptionClick index s) ! j = userAnswers s ! j)
   \<and> (ResetQuiz \<notin> set ops \<and> (\<forall>qs. QuestionsChanged qs \<notin> set ops)
        \<and> j < length (userAnswers (quizState v)) \<and> userAnswers (quizState v) ! j \<noteq> Null \<longrightarrow>
        userAnswers (quizState (runQuiz ops v)) ! j = userAnswers (quizState v) ! j)"
proof -
  have "\<not> isAnswered s \<Longrightarrow> userAnswers s ! nat (currentQuestionIndex s) = Null"
    by (simp add: isAnswered_def currentAnswer_def Let_def split: if_splits)
  then show ?thesis
    using handleOptionClick_answers [of index s j] runQuiz_answers [of ops v j]
    by (auto simp: handleOptionClick_def)
qed

theorem answers_recorded_once_witness:
  "userAnswers (quizState
     (runQuiz [OptionClick 3, Next, OptionClick 1, Previous, OptionClick 0, ChatSubmit 5 7]
        (quizStep (OptionClick 2) exampleView))) ! 0 = Num 2"
proof -
  have ops: "ResetQuiz \<notin> set [OptionClick 3, Next, OptionClick 1, Previous, OptionClick 0, ChatSubmit 5 7]
      \<and> (\<forall>qs. QuestionsChanged qs
            \<notin> set [OptionClick 3, Next, OptionClick 1, Previous, OptionClick 0, ChatSubmit 5 7])"
    by simp
  have answered: "0 < length (userAnswers (quizState (quizStep (OptionClick 2) exampleView)))
      \<and> userAnswers (quizState (quizStep (OptionClick 2) exampleView)) ! 0 \<noteq> Null"
    by code_simp
  note kept = answers_recorded_once
    [where ops = "[OptionClick 3, Next, OptionClick 1, Previous, OptionClick 0, ChatSubmit 5 7]"
       and v = "quizStep (OptionClick 2) exampleView" and j = 0,
     THEN conjunct2, THEN conjunct2, THEN conjunct2, THEN conjunct2, THEN mp]
  have "userAnswers (quizState
     (runQuiz [OptionClick 3, Next, OptionClick 1, Previous, OptionClick 0, ChatSubmit 5 7]
        (quizStep (OptionClick 2) exampleView))) ! 0
      = userAnswers (quizState (quizStep (OptionClick 2) exampleView)) ! 0"
    using ops answered by (intro kept) simp
  also have "\<dots> = Num 2"
    by code_simp
  finally show ?thesis .
qed

subsection \<open>The chat transcript\<close>

lemma handleChatSubmit_guard:
  "trim (chatInput s) = [] \<or> falsy src \<or> isChatLoading s \<Longrightarrow>
   handleChatSubmit w now later src s = (s, w)"
  by (auto simp: handleChatSubmit_def)

lemma handleChatSubmit_appends:
  "trim (chatInput s) \<noteq> [] \<Longrightarrow> \<not> falsy src \<Longrightarrow> \<not> isChatLoading s \<Longrightarrow>
   chatMessages (fst (handleChatSubmit w now later src s)) =
     chatMessages s @
       [\<lparr>id' = toString now, sender = User, text' = chatInput s\<rparr>,
        \<lparr>id' = toString (later + 1), sender = Ai,
         text' = (case fst (askAiTutor w (rawBase64 (the src)) (mimeOf (the src)) (chatInput s)) of
                    Inr responseText \<Rightarrow> responseText
                  | Inl err \<Rightarrow> js ''Sorry, I couldn't answer that right now.'')\<rparr>]"
  by (simp add: handleChatSubmit_def Let_def split_beta split: sum.splits)

lemma handleChatSubmit_extends:
  "\<exists>added. chatMessages (fst (handleChatSubmit w now later src s)) = chatMessages s @ added"
proof (cases "trim (chatInput s) = [] \<or> falsy src \<or> isChatLoading s")
  case True
  then show ?thesis by (simp add: handleChatSubmit_guard)
next
  case False
  then show ?thesis by (simp add: handleChatSubmit_appends)
qed

lemma quizStep_chat:
  "\<exists>added. chatMessages (quizState (quizStep op v)) = chatMessages (quizState v) @ added"
proof (cases op)
  case (ChatSubmit now later)
  then show ?thesis
    using handleChatSubmit_extends [of "world v" now later "imageSrc v" "quizState v"]
    by (simp add: quizState_quizStep)
qed (simp_all add: quizState_quizStep handleOptionClick_def handleNext_def handlePrevious_def
       resetQuiz_def questionsEffect_def)

lemma runQuiz_chat:
  "\<exists>added. chatMessages (quizState (runQuiz ops v)) = chatMessages (quizState v) @ added"
proof (induction ops arbitrary: v)
  case Nil
  show ?case by (simp add: runQuiz_def)
next
  case (Cons op ops)
  obtain a where a: "chatMessages (quizState (quizStep op v)) = chatMessages (quizState v) @ a"
    using quizStep_chat by blast
  obtain b where "chatMessages (quizState (runQuiz ops (quizStep op v)))
      = chatMessages (quizState (quizStep op v)) @ b"
    using Cons.IH by blast
  with a show ?case
    by (simp add: runQuiz_def)
qed

text \<open>
  Claim C8 says that every submission of a non-blank chat input while not loading appends
  a user message and an AI message. \<open>handleChatSubmit\<close> also returns at once when there
  is no image source: with the question \<open>"Why?"\<close> typed, nothing loading and
  \<open>imageSrc\<close> \<open>null\<close>, the transcript stays as it was.
\<close>

theorem chat_submit_without_image_appends_nothing:
  "trim (chatInput (quizState viewWithoutImage)) \<noteq> []
   \<and> \<not> isChatLoading (quizState viewWithoutImage)
   \<and> chatMessages (fst (handleChatSubmit (world viewWithoutImage) 5 7
        (imageSrc viewWithoutImage) (quizState viewWithoutImage)))
       = chatMessages (quizState viewWithoutImage)"
  by code_simp

text \<open>
  Claim C8 as amended: a submission of a non-blank chat input with an image source
  present and nothing loading appends exactly the user message with the submitted text
  and then one AI message, whose text is what \<open>askAiTutor\<close> returned or, when it threw,
  the fixed apology; any other submission leaves the transcript as it is; and over any
  sequence of quiz and chat operations the transcript only grows at its end.
\<close>

theorem chat_transcript_append_only:
  "(trim (chatInput s) \<noteq> [] \<and> \<not> falsy src \<and> \<not> isChatLoading s \<longrightarrow>
      chatMessages (fst (handleChatSubmit w now later src s)) =
        chatMessages s @
          [\<lparr>id' = toString now, sender = User, text' = chatInput s\<rparr>,
           \<lparr>id' = toString (later + 1), sender = Ai,
            text' = (case fst (askAiTutor w (rawBase64 (the src)) (mimeOf (the src)) (chatInput s)) of
                       Inr responseText \<Rightarrow> responseText
                     | Inl err \<Rightarrow> js ''Sorry, I couldn't answer that right now.'')\<rparr>])
   \<and> (trim (chatInput s) = [] \<or> falsy src \<or> isChatLoading s \<longrightarrow>
      chatMessages (fst (handleChatSubmit w now later src s)) = chatMessages s)
   \<and> (\<exists>added. chatMessages (quizState (runQuiz ops v)) = chatMessages (quizState v) @ added)"
  using runQuiz_chat [of ops v]
  by (simp add: handleChatSubmit_appends handleChatSubmit_guard)

theorem chat_transcript_append_only_witness:
  "chatMessages (fst (handleChatSubmit onlineWorld 5 7 (imageSrc exampleView) (quizState exampleView)))
     = [\<lparr>id' = js ''5'', sender = User, text' = js ''Why?''\<rparr>,
        \<lparr>id' = js ''8'', sender = Ai, text' = js ''{}''\<rparr>]
   \<and> chatMessages (fst (handleChatSubmit offlineWorld 5 7 (imageSrc exampleView) (quizState exampleView)))
     = [\<lparr>id' = js ''5'', sender = User, text' = js ''Why?''\<rparr>,
        \<lparr>id' = js ''8'', sender = Ai, text' = js ''Sorry, I couldn't answer that right now.''\<rparr>]"
proof -
  have ready: "trim (chatInput (quizState exampleView)) \<noteq> [] \<and> \<not> falsy (imageSrc exampleView)
      \<and> \<not> isChatLoading (quizState exampleView)"
    by code_simp
  note online = chat_transcript_append_only
    [where s = "quizState exampleView" and src = "imageSrc exampleView" and w = onlineWorld
       and now = 5 and later = 7, THEN conjunct1, THEN mp, OF ready]
  note offline = chat_transcript_append_only
    [where s = "quizState exampleView" and src = "imageSrc exampleView" and w = offlineWorld
       and now = 5 and later = 7, THEN conjunct1, THEN mp, OF ready]
  have "chatMessages (fst (handleChatSubmit onlineWorld 5 7 (imageSrc exampleView) (quizState exampleView)))
     = [\<lparr>id' = js ''5'', sender = User, text' = js ''Why?''\<rparr>,
        \<lparr>id' = js ''8'', sender = Ai, text' = js ''{}''\<rparr>]"
    by (rule trans [OF online]) code_simp
  moreover have "chatMessages (fst (handleChatSubmit offlineWorld 5 7 (imageSrc exampleView) (quizState exampleView)))
     = [\<lparr>id' = js ''5'', sender = User, text' = js ''Why?''\<rparr>,
        \<lparr>id' = js ''8'', sender = Ai, text' = js ''Sorry, I couldn't answer that right now.''\<rparr>]"
    by (rule trans [OF offline]) code_simp
  ultimately show ?thesis ..
qed

section \<open>Properties of the application\<close>

subsection \<open>Errors and reset\<close>

lemma processFile_not_image:
  "\<not> startsWith (js ''image/'') (type' file) \<Longrightarrow>
   processFile w file s =
     (s\<lparr>image' := None, result := None,
        processingState :=
          \<lparr>status = Error, error = Some (js ''Please upload a valid image file.'')\<rparr>\<rparr>, w)"
  by (simp add: processFile_def Let_def)

lemma processFile_unreadable:
  "startsWith (js ''image/'') (type' file) \<Longrightarrow> readFileAsBase64 file = Inl err \<Longrightarrow>
   processFile w file s =
     (s\<lparr>image' := None, result := None, processingState := caught err\<rparr>, w)"
  by (simp add: processFile_def Let_def)

lemma processFile_analysed:
  "startsWith (js ''image/'') (type' file) \<Longrightarrow> readFileAsBase64 file = Inr base64Data \<Longrightarrow>
   processFile w file s =
     (case fst (analyzeImage w (rawBase64 base64Data) (type' file)) of
        Inl err \<Rightarrow> s\<lparr>image' := Some base64Data, result := None, processingState := caught err\<rparr>
      | Inr analysisData \<Rightarrow>
          s\<lparr>image' := Some base64Data, result := Some analysisData,
            processingState := \<lparr>status = Complete, error = None\<rparr>\<rparr>,
      snd (analyzeImage w (rawBase64 base64Data) (type' file)))"
  by (simp add: processFile_def Let_def split_beta split: sum.splits)

lemma processFile_status:
  "status (processingState (fst (processFile w file s))) = Error
   \<and> result (fst (processFile w file s)) = None
   \<or> status (processingState (fst (processFile w file s))) = Complete"
proof (cases "startsWith (js ''image/'') (type' file)")
  case False
  then show ?thesis by (simp add: processFile_not_image)
next
  case True
  show ?thesis
  proof (cases "readFileAsBase64 file")
    case (Inl err)
    with True show ?thesis by (simp add: processFile_unreadable caught_def)
  next
    case (Inr base64Data)
    with True show ?thesis
      by (simp add: processFile_analysed caught_def split: sum.splits)
  qed
qed

text \<open>
  Claim C7: a file whose MIME type does not start with \<open>"image/"\<close> ends in status
  \<open>error\<close> with the message \<open>Please upload a valid image file.\<close> and makes no request
  to the model; a failed read or a failed analysis ends in status \<open>error\<close> with the
  thrown message, or the fallback message when there is none; \<open>processFile\<close> always ends
  in \<open>error\<close> or \<open>complete\<close>, with no result in the first case; \<open>handleReset\<close> gives status
  \<open>idle\<close> with image and result cleared; and processing a good file after the reset
  completes.
\<close>

theorem processFile_error_and_reset:
  "(\<not> startsWith (js ''image/'') (type' file) \<longrightarrow>
      processingState (fst (processFile w file s)) =
        \<lparr>status = Error, error = Some (js ''Please upload a valid image file.'')\<rparr>
      \<and> snd (processFile w file s) = w)
   \<and> (startsWith (js ''image/'') (type' file) \<and> readFileAsBase64 file = Inl err \<longrightarrow>
      processingState (fst (processFile w file s)) =
        \<lparr>status = Error,
         error = Some (if falsy (message err)
                       then js ''An unexpected error occurred while processing the image.''
                       else the (message err))\<rparr>
      \<and> snd (processFile w file s) = w)
   \<and> (startsWith (js ''image/'') (type' file) \<and> readFileAsBase64 file = Inr base64Data
        \<and> fst (analyzeImage w (rawBase64 base64Data) (type' file)) = Inl err \<longrightarrow>
      processingState (fst (processFile w file s)) =
        \<lparr>status = Error,
         error = Some (if falsy (message err)
                       then js ''An unexpected error occurred while processing the image.''
                       else the (message err))\<rparr>)
   \<and> (status (processingState (fst (processFile w file s))) = Error
        \<or> status (processingState (fst (processFile w file s))) = Complete)
   \<and> (status (processingState (fst (processFile w file s))) = Error \<longrightarrow>
        result (fst (processFile w file s)) = None)
   \<and> processingState (handleReset s) = \<lparr>status = Idle, error = None\<rparr>
   \<and> image' (handleReset s) = None
   \<and> result (handleReset s) = None
   \<and> (startsWith (js ''image/'') (type' file) \<and> readFileAsBase64 file = Inr base64Data
        \<and> fst (analyzeImage w (rawBase64 base64Data) (type' file)) = Inr analysisData \<longrightarrow>
      processingState (fst (processFile w file (handleReset s))) = \<lparr>status = Complete, error = None\<rparr>
      \<and> result (fst (processFile w file (handleReset s))) = Some analysisData
      \<and> image' (fst (processFile w file (handleReset s))) = Some base64Data)"
proof -
  have reset: "startsWith (js ''image/'') (type' file) \<Longrightarrow> readFileAsBase64 file = Inr base64Data \<Longrightarrow>
      fst (analyzeImage w (rawBase64 base64Data) (type' file)) = Inr analysisData \<Longrightarrow>
      processingState (fst (processFile w file (handleReset s))) = \<lparr>status = Complete, error = None\<rparr>
      \<and> result (fst (processFile w file (handleReset s))) = Some analysisData
      \<and> image' (fst (processFile w file (handleReset s))) = Some base64Data"
    by (simp add: processFile_analysed)
  have failed: "startsWith (js ''image/'') (type' file) \<Longrightarrow> readFileAsBase64 file = Inr base64Data \<Longrightarrow>
      fst (analyzeImage w (rawBase64 base64Data) (type' file)) = Inl err \<Longrightarrow>
      processingState (fst (processFile w file s)) = caught err"
    by (simp add: processFile_analysed)
  have idle: "processingState (handleReset s) = \<lparr>status = Idle, error = None\<rparr>
      \<and> image' (handleReset s) = None \<and> result (handleReset s) = None"
    by (simp add: handleReset_def)
  show ?thesis
    using processFile_status [of w "file" s] reset failed idle
    by (auto simp: processFile_not_image processFile_unreadable caught_def)
qed

theorem processFile_error_and_reset_witness:
  "processingState (fst (processFile onlineWorld textFile initialApp)) =
     \<lparr>status = Error, error = Some (js ''Please upload a valid image file.'')\<rparr>
   \<and> calls (snd (processFile onlineWorld textFile initialApp)) = []
   \<and> processingState (fst (processFile onlineWorld unreadableFile initialApp)) =
     \<lparr>status = Error,
      error = Some (js ''An unexpected error occurred while processing the image.'')\<rparr>
   \<and> processingState (fst (processFile offlineWorld pngFile initialApp)) =
     \<lparr>status = Error, error = Some (js ''Failed to analyze the diagram. Please try again.'')\<rparr>
   \<and> result (fst (processFile onlineWorld pngFile
        (handleReset (fst (processFile offlineWorld pngFile initialApp))))) = Some exampleResult"
proof -
  have notImage: "\<not> startsWith (js ''image/'') (type' textFile)"
    by code_simp
  note rejected = processFile_error_and_reset
    [of textFile onlineWorld initialApp, THEN conjunct1, THEN mp, OF notImage]
  have unreadable: "startsWith (js ''image/'') (type' unreadableFile)
      \<and> readFileAsBase64 unreadableFile = Inl (Thrown None)"
    by code_simp
  note unread = processFile_error_and_reset
    [of unreadableFile onlineWorld initialApp,
     THEN conjunct2, THEN conjunct1, THEN mp, OF unreadable, THEN conjunct1]
  have offline: "startsWith (js ''image/'') (type' pngFile)
      \<and> readFileAsBase64 pngFile = Inr (js ''data:image/png;base64,QQ=='')
      \<and> fst (analyzeImage offlineWorld (rawBase64 (js ''data:image/png;base64,QQ==''))
               (type' pngFile))
          = Inl (newError ''Failed to analyze the diagram. Please try again.'')"
    by code_simp
  note failed = processFile_error_and_reset
    [of pngFile offlineWorld initialApp,
     THEN conjunct2, THEN conjunct2, THEN conjunct1, THEN mp, OF offline]
  have online: "startsWith (js ''image/'') (type' pngFile)
      \<and> readFileAsBase64 pngFile = Inr (js ''data:image/png;base64,QQ=='')
      \<and> fst (analyzeImage onlineWorld (rawBase64 (js ''data:image/png;base64,QQ==''))
               (type' pngFile))
          = Inr exampleResult"
    by code_simp
  note retried = processFile_error_and_reset
    [of pngFile onlineWorld "fst (processFile offlineWorld pngFile initialApp)",
     THEN conjunct2, THEN conjunct2, THEN conjunct2, THEN conjunct2, THEN conjunct2,
     THEN conjunct2, THEN conjunct2, THEN conjunct2, THEN mp, OF online,
     THEN conjunct2, THEN conjunct1]
  have "calls (snd (processFile onlineWorld textFile initialApp)) = calls onlineWorld"
    using rejected by simp
  also have "\<dots> = []"
    by code_simp
  finally have noCall: "calls (snd (processFile onlineWorld textFile initialApp)) = []" .
  have emptyMessage: "falsy (message (Thrown None))"
    by (simp add: falsy_def)
  have fullMessage: "\<not> falsy (message (newError ''Failed to analyze the diagram. Please try again.''))"
    by (simp add: falsy_def js_def)
  show ?thesis
    using rejected noCall unread failed retried emptyMessage fullMessage by simp
qed

subsection \<open>Generating more questions\<close>

text \<open>
  When the request fails, or the handler returns at its guard, the result is left as it
  is, whatever has run in between. When the request succeeds and the result is still the
  one the handler captured, only \<open>quiz\<close> is replaced.
\<close>

lemma generateMore_guard:
  "falsy (image' s) \<or> result s = None \<Longrightarrow> handleGenerateMoreQuestions w s = ((s, None), w)"
  by (auto simp: handleGenerateMoreQuestions_def)

lemma generateMore_captures:
  "fst (handleGenerateMoreQuestions w s) = (s1, Some pending) \<Longrightarrow>
   result s = Some (capturedResult pending) \<and> result s1 = result s"
  by (auto simp: handleGenerateMoreQuestions_def Let_def split_beta split: if_splits)

lemma generateMore_failed:
  "generated pending = Inl err \<Longrightarrow> result (generateMoreSettled pending s) = result s"
  by (simp add: generateMoreSettled_def)

lemma generateMore_undisturbed:
  assumes "fst (handleGenerateMoreQuestions w s) = (s1, Some pending)"
    and "result s2 = result s"
    and "generated pending = Inr newQuestions"
  shows "result (generateMoreSettled pending s2) = Some ((the (result s2))\<lparr>quiz := newQuestions\<rparr>)"
  using generateMore_captures [OF assms(1)] assms(2,3)
  by (simp add: generateMoreSettled_def)

text \<open>
  Claim C9 says that a successful generation replaces only the \<open>quiz\<close> field of the
  analysis result and leaves title, explanation and relationship description unchanged.
  The handler writes \<open>{...result, quiz: newQuestions}\<close> with the \<open>result\<close> it captured
  before the \<open>await\<close>, and the reset button stays enabled while it waits. After a reset
  the late write puts the old result back where there was none; after a reset and the
  analysis of another image it replaces the new title, explanation and relationship
  description by the old ones.
\<close>

theorem late_generated_questions_overwrite_result:
  "result generatingApp = Some exampleResult
   \<and> generated pendingGeneration = Inr [exampleQuestion, exampleQuestion]
   \<and> result (handleReset generatingApp) = None
   \<and> result (generateMoreSettled pendingGeneration (handleReset generatingApp))
       = Some (exampleResult\<lparr>quiz := [exampleQuestion, exampleQuestion]\<rparr>)
   \<and> result reanalysedApp = Some otherResult
   \<and> result (generateMoreSettled pendingGeneration reanalysedApp)
       = Some (exampleResult\<lparr>quiz := [exampleQuestion, exampleQuestion]\<rparr>)
   \<and> title exampleResult \<noteq> title otherResult
   \<and> explanation exampleResult \<noteq> explanation otherResult
   \<and> relationshipDescription exampleResult \<noteq> relationshipDescription otherResult"
  by code_simp

end
